theory Spec2Isabelle
  imports Main
begin

section \<open>Time values and durations of the Go standard library\<close>

text \<open>
  The dates \<^verbatim>\<open>scraper.go\<close> computes with (the arrival, the departure and the
  elements of \<^verbatim>\<open>getDates\<close>) are built with \<^verbatim>\<open>time.Parse(layoutISO, ...)\<close>,
  where \<^verbatim>\<open>layoutISO = "2006-1-2"\<close>, or by adding whole hours to such a value. The
  layout has neither a clock nor a zone field, so each of these values is a UTC instant
  with a zero nanosecond part and no monotonic reading. Such a value is determined by the
  number of seconds since January 1, year 1, 00:00:00 UTC (what Go's \<^verbatim>\<open>t.sec()\<close>
  returns).
\<close>

datatype Time = Time (sec: int)

text \<open>
  The keys of \<^verbatim>\<open>map[time.Time]string\<close> are not built by the dispatcher: they are
  decoded by \<^verbatim>\<open>json.Unmarshal\<close> from RFC 3339 text and can be any
  \<^verbatim>\<open>time.Time\<close>. Go compares map keys with \<^verbatim>\<open>==\<close>, field by field on the
  struct \<^verbatim>\<open>{wall uint64; ext int64; loc *Location}\<close>. No value of this program carries
  a monotonic clock reading (only \<^verbatim>\<open>time.Now\<close> sets one), so \<open>wall\<close> holds the
  nanoseconds within the second and \<open>ext\<close> the seconds since January 1, year 1. The
  pointer \<open>loc\<close> is nil for UTC (\<^verbatim>\<open>setLoc\<close> stores nil for
  \<^verbatim>\<open>&utcLoc\<close>); any other Location, the local zone or one made by
  \<^verbatim>\<open>FixedZone\<close> for a text with a numeric offset, is identified by its address.
  Two values that denote the same instant in different Locations are different keys.
\<close>

datatype Location = UTC | Zone nat

datatype TimeValue = TimeValue (wall: nat) (ext: int) (loc: Location)

text \<open>A date of the dispatcher as the \<^verbatim>\<open>time.Time\<close> struct it is.\<close>

definition Time_value :: "Time \<Rightarrow> TimeValue" where
  "Time_value t = TimeValue 0 (sec t) UTC"

text \<open>\<^verbatim>\<open>time.Time{}\<close>, which \<^verbatim>\<open>time.Parse\<close> returns next to an error.\<close>

definition zeroTime :: Time where
  "zeroTime = Time 0"

text \<open>A \<^verbatim>\<open>time.Duration\<close> is an \<^verbatim>\<open>int64\<close> count of nanoseconds.\<close>

type_synonym Duration = int

definition Second :: Duration where
  "Second = 1000000000"

definition Hour :: Duration where
  "Hour = 3600 * Second"

definition minDuration :: Duration where
  "minDuration = - (2 ^ 63)"

definition maxDuration :: Duration where
  "maxDuration = 2 ^ 63 - 1"

text \<open>
  \<^verbatim>\<open>func (t Time) Sub(u Time) Duration\<close>: the difference \<^verbatim>\<open>t - u\<close>; when it
  does not fit a Duration the result is the largest (or smallest) Duration.
\<close>

definition Time_Sub :: "Time \<Rightarrow> Time \<Rightarrow> Duration" where
  "Time_Sub t u =
     (let d = (sec t - sec u) * Second
      in if maxDuration < d then maxDuration
         else if d < minDuration then minDuration
         else d)"

text \<open>
  \<^verbatim>\<open>int(d.Hours()/24)\<close>. \<^verbatim>\<open>Hours\<close> returns the \<^verbatim>\<open>float64\<close>
  \<^verbatim>\<open>float64(d/Hour) + float64(d%Hour)/(60*60*1e9)\<close>, the division by 24 is a
  \<^verbatim>\<open>float64\<close> division, and the conversion to \<^verbatim>\<open>int\<close> drops the fraction
  (rounds toward zero). The model computes the same quotient in exact integer arithmetic.
  The two agree on every Duration \<^const>\<open>Time_Sub\<close> can return here: for a whole number
  of seconds the exact quotient is either an integer (then every \<^verbatim>\<open>float64\<close>
  operation is exact) or at least \<open>1/86400\<close> away from the next integer, far more than the
  rounding error of two \<^verbatim>\<open>float64\<close> operations on values below \<open>2^22\<close>; for the
  two saturation values the \<^verbatim>\<open>float64\<close> quotient is \<open>\<plusminus>106751.99...\<close>.
\<close>

definition Duration_days :: "Duration \<Rightarrow> int" where
  "Duration_days d =
     (if d < 0 then - ((- d) div (24 * Hour)) else d div (24 * Hour))"

text \<open>
  \<^verbatim>\<open>time.ParseDuration(fmt.Sprintf("%dh", h))\<close> with the error dropped
  (\<^verbatim>\<open>dayDuration, _ := ...\<close>): \<^verbatim>\<open>ParseDuration\<close> rejects a count \<open>v\<close> of hours
  with \<^verbatim>\<open>v > 1<<63/unit\<close> and then returns the Duration 0 next to the error.
\<close>

definition ParseDuration_hours :: "int \<Rightarrow> Duration" where
  "ParseDuration_hours h =
     (if 2 ^ 63 div Hour < \<bar>h\<bar> then 0 else h * Hour)"

text \<open>
  \<^verbatim>\<open>func (t Time) Add(d Duration) Time\<close>. The durations added here are whole hours,
  so the result again has a zero nanosecond part.
\<close>

definition Time_Add :: "Time \<Rightarrow> Duration \<Rightarrow> Time" where
  "Time_Add t d = Time (sec t + d div Second)"

text \<open>A calendar date: midnight UTC of some day.\<close>

definition isDate :: "Time \<Rightarrow> bool" where
  "isDate t \<longleftrightarrow> sec t mod 86400 = 0"

section \<open>getDates\<close>

text \<open>
  \<^verbatim>\<open>
  func getDates(startDate time.Time, endDate time.Time) []time.Time {
      dates := []time.Time{}
      for day := 0; day < int(endDate.Sub(startDate).Hours()/24); day++ {
          hours := fmt.Sprintf("%dh", 24*day)
          dayDuration, _ := time.ParseDuration(hours)
          dates = append(dates, startDate.Add(dayDuration))
      }
      return dates
  }
  \<close>
  The loop is a recursion on \<open>day\<close> with the slice \<open>dates\<close> as accumulator; the bound
  is evaluated before every iteration, as in the source.
\<close>

function getDates_loop :: "Time \<Rightarrow> Time \<Rightarrow> int \<Rightarrow> Time list \<Rightarrow> Time list" where
  "getDates_loop startDate endDate day dates =
     (if day < Duration_days (Time_Sub endDate startDate)
      then getDates_loop startDate endDate (day + 1)
             (dates @ [Time_Add startDate (ParseDuration_hours (24 * day))])
      else dates)"
  by pat_completeness auto
termination
  by (relation "measure (\<lambda>(startDate, endDate, day, dates).
        nat (Duration_days (Time_Sub endDate startDate) - day))") auto

definition getDates :: "Time \<Rightarrow> Time \<Rightarrow> Time list" where
  "getDates startDate endDate = getDates_loop startDate endDate 0 []"

section \<open>getAvailableSites\<close>

text \<open>
  \<^verbatim>\<open>
  type Campground struct { Campsites map[string]Campsite }
  type Campsite struct {
      CampsiteID     int
      CampsiteType   string
      Availabilities map[time.Time]string
  }
  \<close>
  \<open>Availabilities\<close> is only read by key, so it is a map, with \<^typ>\<open>TimeValue\<close> keys
  as the decoder stores them. \<open>Campsites\<close> is traversed by
  \<^verbatim>\<open>range\<close>, which visits every key once in an order Go does not fix: it is an
  association list whose order is the order in which the run visits the sites, and whose
  keys are distinct, as the keys of every Go map are. A nil map is the empty one.
\<close>

record Campsite =
  CampsiteID :: int
  CampsiteType :: string
  Availabilities :: "TimeValue \<rightharpoonup> string"

record Campground =
  Campsites :: "(string \<times> Campsite) list"

text \<open>\<^verbatim>\<open>m[k]\<close> on a \<^verbatim>\<open>map[time.Time]string\<close>: an absent key reads as \<^verbatim>\<open>""\<close>.\<close>

definition map_index :: "(TimeValue \<rightharpoonup> string) \<Rightarrow> TimeValue \<Rightarrow> string" where
  "map_index m k = (case m k of None \<Rightarrow> [] | Some v \<Rightarrow> v)"

text \<open>
  \<^verbatim>\<open>
  func getAvailableSites(campground Campground, arrival time.Time, departure time.Time) []string {
      dates := getDates(arrival, departure)
      count := 0
      campsiteNames := []string{}
      for siteID, site := range campground.Campsites {
          for idx, date := range dates {
              if site.Availabilities[date] != "Available" {
                  break
              } else if idx == len(dates)-1 {
                  count++
                  campsiteNames = append(campsiteNames, siteID)
              }
          }
      }
      return campsiteNames
  }
  \<close>
  Both loops thread the pair \<open>(count, campsiteNames)\<close>. The inner loop takes the whole
  slice \<open>dates\<close> (for \<^verbatim>\<open>len(dates)\<close>), the index \<open>idx\<close> and the dates it has still
  to visit; \<^verbatim>\<open>break\<close> returns the pair as it is. The loops are written for
  any \<^verbatim>\<open>time.Time\<close> values; \<open>getAvailableSites\<close> runs them on the dates of
  \<open>getDates\<close>, each as the struct it is.
\<close>

fun dates_loop ::
  "string \<Rightarrow> Campsite \<Rightarrow> TimeValue list \<Rightarrow> int \<Rightarrow> TimeValue list \<Rightarrow> int \<times> string list
   \<Rightarrow> int \<times> string list" where
  "dates_loop siteID site dates idx [] st = st"
| "dates_loop siteID site dates idx (date # rest) (count, campsiteNames) =
     (if map_index (Availabilities site) date \<noteq> ''Available''
      then (count, campsiteNames)
      else if idx = int (length dates) - 1
      then dates_loop siteID site dates (idx + 1) rest (count + 1, campsiteNames @ [siteID])
      else dates_loop siteID site dates (idx + 1) rest (count, campsiteNames))"

fun sites_loop ::
  "(string \<times> Campsite) list \<Rightarrow> TimeValue list \<Rightarrow> int \<times> string list
   \<Rightarrow> int \<times> string list" where
  "sites_loop [] dates st = st"
| "sites_loop ((siteID, site) # rest) dates st =
     sites_loop rest dates (dates_loop siteID site dates 0 dates st)"

definition getAvailableSites :: "Campground \<Rightarrow> Time \<Rightarrow> Time \<Rightarrow> string list" where
  "getAvailableSites campground arrival departure =
     (let dates = map Time_value (getDates arrival departure)
      in snd (sites_loop (Campsites campground) dates (0, [])))"

section \<open>The dispatcher\<close>

text \<open>
  \<^verbatim>\<open>
  type MessageContent struct {
      Name       string
      Campground string
      Arrival    string
      Departure  string
  }
  \<close>
\<close>

record MessageContent =
  Name :: string
  Campground :: string
  Arrival :: string
  Departure :: string

datatype error = Error string

text \<open>
  What the dispatcher calls outside the repository: functions of Go's standard library
  and the remote service. The model takes them as parameters.
  \<^item> \<open>json_Unmarshal_MessageContent data\<close> and \<open>json_Unmarshal_Campground data\<close>:
    \<^verbatim>\<open>json.Unmarshal(data, &v)\<close> on a zero-valued \<open>v\<close>; the error, if any, and \<open>v\<close>
    as the decoder leaves it (untouched on a syntax error; with every other field filled
    in when one field has a value of the wrong type).
  \<^item> \<open>time_Parse layout value\<close>: \<^verbatim>\<open>time.Parse\<close>.
  \<^item> \<open>time_Format t layout\<close>: \<^verbatim>\<open>t.Format(layout)\<close>.
  \<^item> \<open>time_Year t\<close>, \<open>time_Month t\<close>: \<^verbatim>\<open>t.Year()\<close>, \<^verbatim>\<open>t.Month()\<close>.
  \<^item> \<open>time_Date year month day\<close>:
    \<^verbatim>\<open>time.Date(year, month, day, 0, 0, 0, 0, time.UTC)\<close>.
  \<^item> \<open>http_Get url\<close>: \<^verbatim>\<open>http.Get(url)\<close> followed by
    \<^verbatim>\<open>ioutil.ReadAll(response.Body)\<close>: \<open>None\<close> when the request fails and the
    response is nil, otherwise the bytes read from the body.
\<close>

record World =
  json_Unmarshal_MessageContent :: "string \<Rightarrow> error option \<times> MessageContent"
  json_Unmarshal_Campground :: "string \<Rightarrow> error option \<times> Campground"
  time_Parse :: "string \<Rightarrow> string \<Rightarrow> error + Time"
  time_Format :: "Time \<Rightarrow> string \<Rightarrow> string"
  time_Year :: "Time \<Rightarrow> int"
  time_Month :: "Time \<Rightarrow> int"
  time_Date :: "int \<Rightarrow> int \<Rightarrow> int \<Rightarrow> Time"
  http_Get :: "string \<Rightarrow> string option"

text \<open>
  The effects of a run, in the order in which they happen: a line written to the log, the
  HTTP request with its URL, and the calls of \<^verbatim>\<open>sendEmail\<close> and
  \<^verbatim>\<open>deleteJob\<close> with their arguments. These two functions only talk to the mail and
  scheduler services and give nothing back to their caller (\<^verbatim>\<open>sendEmail\<close> has no
  result, the error of \<^verbatim>\<open>deleteJob\<close> is not read).
\<close>

datatype Event =
    LogPrintln
  | HttpGet string
  | SendEmail string "string list" string string
  | DeleteJob string

text \<open>A run of a function either returns or panics (here: on a nil pointer).\<close>

datatype 'a Run = Return 'a | Panic

definition layoutISO :: string where
  "layoutISO = ''2006-1-2''"

text \<open>
  \<^verbatim>\<open>
  func ScrapeAvailability(campgroundID string, arrival time.Time, departure time.Time) []string {
      firstOfMonth := time.Date(arrival.Year(), arrival.Month(), 1, 0, 0, 0, 0, time.UTC)
      url := fmt.Sprintf("https://www.recreation.gov/api/camps/availability/campground/%s/month?start_date=%s",
          campgroundID, firstOfMonth.Format("2006-01-02T15:04:05.999999Z"))
      response, _ := http.Get(url)
      campground := Campground{}
      data, _ := ioutil.ReadAll(response.Body)
      json.Unmarshal([]byte(data), &campground)
      availableSites := getAvailableSites(campground, arrival, departure)
      return availableSites
  }
  \<close>
  The error of \<^verbatim>\<open>http.Get\<close> is dropped, so a nil response reaches
  \<^verbatim>\<open>response.Body\<close>, which panics. The errors of \<^verbatim>\<open>ReadAll\<close> and
  \<^verbatim>\<open>json.Unmarshal\<close> are dropped as well.
\<close>

definition ScrapeAvailability ::
  "World \<Rightarrow> string \<Rightarrow> Time \<Rightarrow> Time \<Rightarrow> string list Run \<times> Event list" where
  "ScrapeAvailability w campgroundID arrival departure =
     (let firstOfMonth = time_Date w (time_Year w arrival) (time_Month w arrival) 1;
          url = ''https://www.recreation.gov/api/camps/availability/campground/''
                @ campgroundID @ ''/month?start_date=''
                @ time_Format w firstOfMonth ''2006-01-02T15:04:05.999999Z''
      in case http_Get w url of
           None \<Rightarrow> (Panic, [HttpGet url])
         | Some data \<Rightarrow>
             (let campground = snd (json_Unmarshal_Campground w data);
                  availableSites = getAvailableSites campground arrival departure
              in (Return availableSites, [HttpGet url])))"

text \<open>
  \<^verbatim>\<open>
  func ScrapeFromMessage(ctx context.Context, m pubsub.Message) error {
      messageContent := MessageContent{}
      err := json.Unmarshal([]byte(m.Data), &messageContent)
      if err != nil {
          log.Println(err)
      }
      if len(messageContent.Name) <= 0 {
          return errors.New("this is an error")
      }
      id := messageContent.Campground
      jobName := messageContent.Name
      arrival, _ := time.Parse(layoutISO, messageContent.Arrival)
      departure, _ := time.Parse(layoutISO, messageContent.Departure)
      available := ScrapeAvailability(id, arrival, departure)
      if len(available) > 0 {
          sendEmail(id, available, arrival.Format("Mon Jan 2"), departure.Format("Mon Jan 2"))
          deleteJob(jobName)
      }
      return nil
  }
  \<close>
  \<^verbatim>\<open>time.Parse\<close> returns \<^verbatim>\<open>Time{}\<close> next to every error, and the error is
  dropped: \<open>parsed\<close> is the first result of the call.
\<close>

definition parsed :: "error + Time \<Rightarrow> Time" where
  "parsed r = (case r of Inl err \<Rightarrow> zeroTime | Inr t \<Rightarrow> t)"

definition ScrapeFromMessage :: "World \<Rightarrow> string \<Rightarrow> error option Run \<times> Event list" where
  "ScrapeFromMessage w data =
     (let (err, messageContent) = json_Unmarshal_MessageContent w data;
          logged = (if err \<noteq> None then [LogPrintln] else [])
      in if int (length (Name messageContent)) \<le> 0
         then (Return (Some (Error ''this is an error'')), logged)
         else
           let id = Campground messageContent;
               jobName = Name messageContent;
               arrival = parsed (time_Parse w layoutISO (Arrival messageContent));
               departure = parsed (time_Parse w layoutISO (Departure messageContent))
           in case ScrapeAvailability w id arrival departure of
                (Panic, fetched) \<Rightarrow> (Panic, logged @ fetched)
              | (Return available, fetched) \<Rightarrow>
                  if int (length available) > 0
                  then (Return None,
                        logged @ fetched
                        @ [SendEmail id available (time_Format w arrival ''Mon Jan 2'')
                             (time_Format w departure ''Mon Jan 2''),
                           DeleteJob jobName])
                  else (Return None, logged @ fetched))"

section \<open>Observations on runs\<close>

text \<open>
  A site is free for a sequence of nights: the sequence is not empty and the site's status
  is the label \<open>Available\<close> on every one of its dates. This is the condition the two
  loops of \<open>getAvailableSites\<close> are shown to compute.
\<close>

definition fullyAvailable :: "Campsite \<Rightarrow> TimeValue list \<Rightarrow> bool" where
  "fullyAvailable site dates \<longleftrightarrow>
     dates \<noteq> [] \<and> (\<forall>date \<in> set dates. Availabilities site date = Some ''Available'')"

text \<open>The job names passed to \<^verbatim>\<open>deleteJob\<close> in a run, in order.\<close>

fun jobsDeleted :: "Event list \<Rightarrow> string list" where
  "jobsDeleted [] = []"
| "jobsDeleted (DeleteJob jobName # events) = jobName # jobsDeleted events"
| "jobsDeleted (event # events) = jobsDeleted events"

text \<open>The URL \<open>ScrapeAvailability\<close> requests for a campground and an arrival.\<close>

definition availabilityURL :: "World \<Rightarrow> string \<Rightarrow> Time \<Rightarrow> string" where
  "availabilityURL w campgroundID arrival =
     ''https://www.recreation.gov/api/camps/availability/campground/''
     @ campgroundID @ ''/month?start_date=''
     @ time_Format w (time_Date w (time_Year w arrival) (time_Month w arrival) 1)
         ''2006-01-02T15:04:05.999999Z''"

section \<open>A sample run\<close>

text \<open>
  March 5, 6, 7 and 8 and March 1, 2024, as seconds since January 1 of year 1.
\<close>

definition mar5 :: Time where "mar5 = Time 63845193600"
definition mar6 :: Time where "mar6 = Time 63845280000"
definition mar7 :: Time where "mar7 = Time 63845366400"
definition mar8 :: Time where "mar8 = Time 63845452800"
definition mar1 :: Time where "mar1 = Time 63844848000"

text \<open>
  Site A is free on the three nights of March 5 to 8; site B is reserved on March 6.
\<close>

definition siteA :: Campsite where
  "siteA = \<lparr>CampsiteID = 1, CampsiteType = ''STANDARD'',
     Availabilities = [Time_value mar5 \<mapsto> ''Available'', Time_value mar6 \<mapsto> ''Available'',
       Time_value mar7 \<mapsto> ''Available'']\<rparr>"

definition siteB :: Campsite where
  "siteB = \<lparr>CampsiteID = 2, CampsiteType = ''STANDARD'',
     Availabilities = [Time_value mar5 \<mapsto> ''Available'', Time_value mar6 \<mapsto> ''Reserved'',
       Time_value mar7 \<mapsto> ''Available'']\<rparr>"

definition exampleCampground :: Campground where
  "exampleCampground = \<lparr>Campsites = [(''A'', siteA), (''B'', siteB)]\<rparr>"

text \<open>
  The same data as the decoder leaves it when \<^verbatim>\<open>campsite_id\<close> arrives as a JSON
  string: \<^verbatim>\<open>json.Unmarshal\<close> reports the type error, skips that field and fills in
  the others.
\<close>

definition partialCampground :: Campground where
  "partialCampground =
     \<lparr>Campsites = [(''A'', siteA\<lparr>CampsiteID := 0\<rparr>), (''B'', siteB\<lparr>CampsiteID := 0\<rparr>)]\<rparr>"

text \<open>
  Site A again, with its three nights written with the offset \<^verbatim>\<open>+00:00\<close> in place
  of \<^verbatim>\<open>Z\<close> (\<^verbatim>\<open>"2024-03-05T00:00:00+00:00"\<close>): the decoder stores the same
  instants with a Location pointer that is not nil.
\<close>

definition siteA_offset :: Campsite where
  "siteA_offset = \<lparr>CampsiteID = 1, CampsiteType = ''STANDARD'',
     Availabilities = [TimeValue 0 (sec mar5) (Zone 1) \<mapsto> ''Available'',
       TimeValue 0 (sec mar6) (Zone 1) \<mapsto> ''Available'',
       TimeValue 0 (sec mar7) (Zone 1) \<mapsto> ''Available'']\<rparr>"

definition offsetCampground :: Campground where
  "offsetCampground = \<lparr>Campsites = [(''A'', siteA_offset)]\<rparr>"

definition payloadOK :: string where
  \<open>payloadOK =
     ''{"Name":"job1","Campground":"232447","Arrival":"2024-3-5","Departure":"2024-3-8"}''\<close>

definition payloadBadArrival :: string where
  \<open>payloadBadArrival =
     ''{"Name":"job1","Campground":"232447","Arrival":"tomorrow","Departure":"2024-3-8"}''\<close>

definition payloadTypeError :: string where
  \<open>payloadTypeError =
     ''{"Name":"job1","Campground":232447,"Arrival":"2024-3-5","Departure":"2024-3-8"}''\<close>

definition payloadNoName :: string where
  \<open>payloadNoName =
     ''{"Campground":"232447","Arrival":"2024-3-5","Departure":"2024-3-8"}''\<close>

definition bodyOK :: string where
  \<open>bodyOK = ''{"campsites":{''
     @ ''"A":{"campsite_id":1,"campsite_type":"STANDARD","availabilities":{''
     @ ''"2024-03-05T00:00:00Z":"Available","2024-03-06T00:00:00Z":"Available",''
     @ ''"2024-03-07T00:00:00Z":"Available"}},''
     @ ''"B":{"campsite_id":2,"campsite_type":"STANDARD","availabilities":{''
     @ ''"2024-03-05T00:00:00Z":"Available","2024-03-06T00:00:00Z":"Reserved",''
     @ ''"2024-03-07T00:00:00Z":"Available"}}}}''\<close>

definition bodyTypeError :: string where
  \<open>bodyTypeError = ''{"campsites":{''
     @ ''"A":{"campsite_id":"1","campsite_type":"STANDARD","availabilities":{''
     @ ''"2024-03-05T00:00:00Z":"Available","2024-03-06T00:00:00Z":"Available",''
     @ ''"2024-03-07T00:00:00Z":"Available"}},''
     @ ''"B":{"campsite_id":"2","campsite_type":"STANDARD","availabilities":{''
     @ ''"2024-03-05T00:00:00Z":"Available","2024-03-06T00:00:00Z":"Reserved",''
     @ ''"2024-03-07T00:00:00Z":"Available"}}}}''\<close>

text \<open>
  A world that agrees with the Go library on the values of the sample runs: the four
  payloads and the two bodies decode as \<^verbatim>\<open>json.Unmarshal\<close> decodes them, any other
  input is a syntax error that leaves the target zero-valued; the two dates parse, any
  other string is a parse error; every request is answered with \<open>bodyOK\<close>.
\<close>

definition sampleWorld :: World where
  "sampleWorld = \<lparr>
     json_Unmarshal_MessageContent = (\<lambda>data.
       if data = payloadOK
       then (None, \<lparr>Name = ''job1'', Campground = ''232447'',
                     Arrival = ''2024-3-5'', Departure = ''2024-3-8''\<rparr>)
       else if data = payloadBadArrival
       then (None, \<lparr>Name = ''job1'', Campground = ''232447'',
                     Arrival = ''tomorrow'', Departure = ''2024-3-8''\<rparr>)
       else if data = payloadTypeError
       then (Some (Error ''json: cannot unmarshal number into Go struct field''),
             \<lparr>Name = ''job1'', Campground = [],
               Arrival = ''2024-3-5'', Departure = ''2024-3-8''\<rparr>)
       else if data = payloadNoName
       then (None, \<lparr>Name = [], Campground = ''232447'',
                     Arrival = ''2024-3-5'', Departure = ''2024-3-8''\<rparr>)
       else (Some (Error ''invalid character''),
             \<lparr>Name = [], Campground = [], Arrival = [], Departure = []\<rparr>)),
     json_Unmarshal_Campground = (\<lambda>data.
       if data = bodyOK then (None, exampleCampground)
       else if data = bodyTypeError
       then (Some (Error ''json: cannot unmarshal string into Go struct field''),
             partialCampground)
       else (Some (Error ''invalid character''), \<lparr>Campsites = []\<rparr>)),
     time_Parse = (\<lambda>layout value.
       if layout = layoutISO \<and> value = ''2024-3-5'' then Inr mar5
       else if layout = layoutISO \<and> value = ''2024-3-8'' then Inr mar8
       else Inl (Error ''parsing time'')),
     time_Format = (\<lambda>t layout.
       if layout = ''Mon Jan 2''
       then (if t = mar5 then ''Tue Mar 5'' else if t = mar8 then ''Fri Mar 8''
             else ''Mon Jan 1'')
       else (if t = mar1 then ''2024-03-01T00:00:00Z'' else ''0001-01-01T00:00:00Z'')),
     time_Year = (\<lambda>t. if t = zeroTime then 1 else 2024),
     time_Month = (\<lambda>t. if t = zeroTime then 1 else 3),
     time_Date = (\<lambda>year month day. if year = 2024 \<and> month = 3 \<and> day = 1 then mar1 else zeroTime),
     http_Get = (\<lambda>url. Some bodyOK)\<rparr>"

text \<open>The same world with the request failing, and with the body of the wrong type.\<close>

definition offlineWorld :: World where
  "offlineWorld = sampleWorld\<lparr>http_Get := (\<lambda>url. None)\<rparr>"

definition typeErrorWorld :: World where
  "typeErrorWorld = sampleWorld\<lparr>http_Get := (\<lambda>url. Some bodyTypeError)\<rparr>"

section \<open>Properties of getDates\<close>

lemma Time_Sub_nonpos: "sec endDate \<le> sec startDate \<Longrightarrow> Time_Sub endDate startDate \<le> 0"
  by (simp add: Time_Sub_def Let_def Second_def minDuration_def maxDuration_def
      mult_le_0_iff)

lemma Duration_days_nonpos: "d \<le> 0 \<Longrightarrow> Duration_days d \<le> 0"
  by (simp add: Duration_days_def Hour_def Second_def pos_imp_zdiv_nonneg_iff)

lemma getDates_loop_eq:
  "getDates_loop s e day acc =
     acc @ map (\<lambda>i. Time_Add s (ParseDuration_hours (24 * i)))
              [day..Duration_days (Time_Sub e s) - 1]"
proof (induction s e day acc rule: getDates_loop.induct)
  case (1 startDate endDate day dates)
  show ?case
  proof (cases "day < Duration_days (Time_Sub endDate startDate)")
    case True
    then have "[day..Duration_days (Time_Sub endDate startDate) - 1]
        = day # [day + 1..Duration_days (Time_Sub endDate startDate) - 1]"
      by (simp add: upto_rec1)
    with True 1 show ?thesis
      by (simp del: getDates_loop.simps add: getDates_loop.simps [of startDate endDate day dates])
  next
    case False
    then show ?thesis by simp
  qed
qed

lemma Time_Sub_le_max: "Time_Sub e s \<le> maxDuration"
  by (simp add: Time_Sub_def Let_def minDuration_def maxDuration_def)

lemma Duration_days_mono_max: "d \<le> maxDuration \<Longrightarrow> Duration_days d \<le> 106751"
proof -
  assume "d \<le> maxDuration"
  then have "d div (24 * Hour) \<le> maxDuration div (24 * Hour)"
    by (intro zdiv_mono1) (simp_all add: Hour_def Second_def)
  moreover have "maxDuration div (24 * Hour) = 106751"
    by (simp add: maxDuration_def Hour_def Second_def)
  moreover have "d < 0 \<Longrightarrow> - ((- d) div (24 * Hour)) \<le> 0"
    by (simp add: Hour_def Second_def pos_imp_zdiv_nonneg_iff)
  ultimately show ?thesis
    by (auto simp: Duration_days_def)
qed

lemma ParseDuration_hours_day:
  "0 \<le> i \<Longrightarrow> i < 106751 \<Longrightarrow> Time_Add s (ParseDuration_hours (24 * i)) = Time (sec s + i * 86400)"
  by (simp add: ParseDuration_hours_def Time_Add_def Hour_def Second_def)

lemma getDates_eq:
  "getDates s e = map (\<lambda>i. Time (sec s + i * 86400)) [0..Duration_days (Time_Sub e s) - 1]"
proof -
  have "Duration_days (Time_Sub e s) \<le> 106751"
    by (intro Duration_days_mono_max Time_Sub_le_max)
  then have "\<forall>i \<in> set [0..Duration_days (Time_Sub e s) - 1].
      Time_Add s (ParseDuration_hours (24 * i)) = Time (sec s + i * 86400)"
    by (auto intro!: ParseDuration_hours_day)
  then show ?thesis
    unfolding getDates_def getDates_loop_eq by (simp del: getDates_loop.simps)
qed

lemma length_getDates: "length (getDates s e) = nat (Duration_days (Time_Sub e s))"
  by (simp add: getDates_eq)

lemma Duration_days_in_range:
  "sec s \<le> sec e \<Longrightarrow> (sec e - sec s) * Second \<le> maxDuration \<Longrightarrow>
   Duration_days (Time_Sub e s) = (sec e - sec s) div 86400"
  by (simp add: Time_Sub_def Let_def Duration_days_def Hour_def Second_def minDuration_def maxDuration_def)

lemma Duration_days_saturated:
  "maxDuration < (sec e - sec s) * Second \<Longrightarrow> Duration_days (Time_Sub e s) = 106751"
  by (simp add: Time_Sub_def Let_def Duration_days_def Hour_def Second_def minDuration_def maxDuration_def)

lemma getDates_example:
  "getDates (Time 63845193600) (Time 63845452800) = [Time 63845193600, Time 63845280000, Time 63845366400]"
proof -
  have "Duration_days (Time_Sub (Time 63845452800) (Time 63845193600)) = 3"
    by (simp add: Time_Sub_def Duration_days_def Hour_def Second_def minDuration_def maxDuration_def)
  moreover have "[0..2::int] = [0, 1, 2]"
    by (simp add: upto_rec1)
  ultimately show ?thesis
    by (simp add: getDates_eq)
qed

text \<open>
  Claim C4. When the departure is not after the arrival, \<open>getDates\<close> returns the empty
  sequence: the day count is zero or negative and the loop body never runs.
\<close>

theorem getDates_departure_le_arrival:
  assumes "sec departure \<le> sec arrival"
  shows "getDates arrival departure = []"
proof -
  have "Duration_days (Time_Sub departure arrival) \<le> 0"
    using assms by (intro Duration_days_nonpos Time_Sub_nonpos)
  then show ?thesis
    by (simp add: getDates_def)
qed

theorem getDates_departure_le_arrival_witness:
  "sec (Time 63845193600) \<le> sec (Time 63845452800)
   \<and> getDates (Time 63845452800) (Time 63845193600) = []"
  using getDates_departure_le_arrival [of "Time 63845193600" "Time 63845452800"]
  by simp

text \<open>
  Claim C3, as stated: for all calendar dates with the arrival before the departure,
  \<open>getDates\<close> has as many elements as there are days from the arrival to the departure.
  It fails when the two dates are further apart than a Duration can hold (about 292
  years): \<^verbatim>\<open>Sub\<close> then returns the largest Duration, which is 106751 days and a
  fraction. January 1 of year 1 (also the zero time) and March 5, 2024 are 738949 days
  apart, and \<open>getDates\<close> returns 106751 dates.
\<close>

theorem getDates_far_apart_counterexample:
  "isDate (Time 0) \<and> isDate (Time 63845193600) \<and> sec (Time 0) < sec (Time 63845193600)
   \<and> (sec (Time 63845193600) - sec (Time 0)) div 86400 = 738949
   \<and> length (getDates (Time 0) (Time 63845193600)) = 106751
   \<and> length (getDates (Time 0) (Time 63845193600))
       \<noteq> nat ((sec (Time 63845193600) - sec (Time 0)) div 86400)"
  by (simp add: isDate_def length_getDates Duration_days_saturated Second_def maxDuration_def)

text \<open>
  Claim C3, amended: for calendar dates with the arrival before the departure and at most
  106751 days between them, \<open>getDates\<close> has exactly as many elements as there are days
  from the arrival to the departure, the element at index \<open>i\<close> is the arrival plus \<open>i\<close>
  days, the first element is the arrival, the last one is the day before the departure,
  and the departure is not an element.
\<close>

theorem getDates_nights:
  assumes "isDate arrival" and "isDate departure"
    and "sec arrival < sec departure"
    and "(sec departure - sec arrival) div 86400 \<le> 106751"
  shows "length (getDates arrival departure) = nat ((sec departure - sec arrival) div 86400)
    \<and> (\<forall>i < length (getDates arrival departure).
          getDates arrival departure ! i = Time (sec arrival + int i * 86400))
    \<and> hd (getDates arrival departure) = arrival
    \<and> last (getDates arrival departure) = Time (sec departure - 86400)
    \<and> departure \<notin> set (getDates arrival departure)"
proof -
  define n where "n = (sec departure - sec arrival) div 86400"
  have dvd: "(sec departure - sec arrival) mod 86400 = 0"
    using assms(1,2) by (simp add: isDate_def mod_diff_eq [symmetric, of "sec departure"])
  then have diff: "sec departure - sec arrival = n * 86400"
    unfolding n_def using div_mult_mod_eq [of "sec departure - sec arrival" 86400] by simp
  have "n \<le> 106751"
    using assms(4) by (simp add: n_def)
  then have "(sec departure - sec arrival) * Second \<le> maxDuration"
    by (simp add: diff Second_def maxDuration_def)
  then have days: "Duration_days (Time_Sub departure arrival) = n"
    unfolding n_def using assms(3) by (intro Duration_days_in_range) simp_all
  have npos: "0 < n"
    using assms(3) diff by (simp add: zero_less_mult_iff)
  have eq: "getDates arrival departure = map (\<lambda>i. Time (sec arrival + i * 86400)) [0..n - 1]"
    by (simp add: getDates_eq days)
  have len: "length (getDates arrival departure) = nat n"
    by (simp add: eq)
  have nth: "getDates arrival departure ! i = Time (sec arrival + int i * 86400)"
    if "i < length (getDates arrival departure)" for i
    using that by (simp add: eq)
  have ne: "getDates arrival departure \<noteq> []"
    using npos len by auto
  have "hd (getDates arrival departure) = getDates arrival departure ! 0"
    using ne by (simp add: hd_conv_nth)
  also have "\<dots> = arrival"
    using nth [of 0] ne by simp
  finally have hd: "hd (getDates arrival departure) = arrival" .
  have "last (getDates arrival departure) = getDates arrival departure ! (nat n - 1)"
    using ne by (simp add: last_conv_nth len)
  also have "\<dots> = Time (sec arrival + int (nat n - 1) * 86400)"
    using npos by (intro nth) (simp add: len)
  also have "\<dots> = Time (sec departure - 86400)"
    using npos diff by (simp add: of_nat_diff algebra_simps)
  finally have last: "last (getDates arrival departure) = Time (sec departure - 86400)" .
  have notin: "departure \<notin> set (getDates arrival departure)"
  proof
    assume "departure \<in> set (getDates arrival departure)"
    then obtain i where "i \<le> n - 1" and "departure = Time (sec arrival + i * 86400)"
      by (auto simp: eq)
    then have "sec departure - sec arrival = i * 86400"
      by simp
    with diff \<open>i \<le> n - 1\<close> show False
      by simp
  qed
  from len nth hd last notin show ?thesis
    by (simp add: n_def)
qed

theorem getDates_nights_witness:
  "isDate (Time 63845193600) \<and> isDate (Time 63845452800)
   \<and> sec (Time 63845193600) < sec (Time 63845452800)
   \<and> (sec (Time 63845452800) - sec (Time 63845193600)) div 86400 \<le> 106751
   \<and> length (getDates (Time 63845193600) (Time 63845452800)) = 3
   \<and> getDates (Time 63845193600) (Time 63845452800) ! 1 = Time 63845280000
   \<and> hd (getDates (Time 63845193600) (Time 63845452800)) = Time 63845193600
   \<and> last (getDates (Time 63845193600) (Time 63845452800)) = Time 63845366400
   \<and> Time 63845452800 \<notin> set (getDates (Time 63845193600) (Time 63845452800))"
  using getDates_nights [of "Time 63845193600" "Time 63845452800"]
  by (simp add: isDate_def)

section \<open>Properties of getAvailableSites\<close>

lemma map_index_Available:
  "map_index m k = ''Available'' \<longleftrightarrow> m k = Some ''Available''"
  by (simp add: map_index_def split: option.splits)

lemma dates_loop_eq:
  assumes "int (length dates) = idx + int (length rest)"
  shows "dates_loop siteID site dates idx rest (count, campsiteNames) =
     (if fullyAvailable site rest then (count + 1, campsiteNames @ [siteID])
      else (count, campsiteNames))"
  using assms
proof (induction rest arbitrary: idx)
  case Nil
  then show ?case by (simp add: fullyAvailable_def)
next
  case (Cons date rest)
  show ?case
  proof (cases "rest = []")
    case True
    with Cons.prems show ?thesis
      by (simp add: fullyAvailable_def map_index_Available)
  next
    case False
    then have "idx \<noteq> int (length dates) - 1"
      using Cons.prems by auto
    moreover have "int (length dates) = (idx + 1) + int (length rest)"
      using Cons.prems by simp
    ultimately show ?thesis
      using False Cons.IH [of "idx + 1"]
      by (simp add: fullyAvailable_def map_index_Available)
  qed
qed

lemma sites_loop_eq:
  "sites_loop campsites dates (count, campsiteNames) =
     (count + int (length (filter (\<lambda>(siteID, site). fullyAvailable site dates) campsites)),
      campsiteNames @ map fst (filter (\<lambda>(siteID, site). fullyAvailable site dates) campsites))"
proof (induction campsites arbitrary: count campsiteNames)
  case Nil
  then show ?case by simp
next
  case (Cons entry campsites)
  obtain siteID site where entry: "entry = (siteID, site)"
    by (cases entry)
  show ?case
    by (simp add: entry dates_loop_eq Cons.IH)
qed

lemma snd_sites_loop:
  "snd (sites_loop campsites dates (0, [])) =
     map fst (filter (\<lambda>(siteID, site). fullyAvailable site dates) campsites)"
  by (simp add: sites_loop_eq)

lemma getAvailableSites_eq:
  "getAvailableSites campground arrival departure =
     map fst (filter (\<lambda>(siteID, site).
         fullyAvailable site (map Time_value (getDates arrival departure)))
       (Campsites campground))"
  by (simp add: getAvailableSites_def Let_def snd_sites_loop)

lemma getDates_mar5_mar8: "getDates mar5 mar8 = [mar5, mar6, mar7]"
  by (simp add: mar5_def mar6_def mar7_def mar8_def getDates_example)

lemma getAvailableSites_example: "getAvailableSites exampleCampground mar5 mar8 = [''A'']"
  unfolding getAvailableSites_eq getDates_mar5_mar8
  by (simp add: exampleCampground_def fullyAvailable_def siteA_def siteB_def
      Time_value_def mar5_def mar6_def mar7_def)

lemma getAvailableSites_partial: "getAvailableSites partialCampground mar5 mar8 = [''A'']"
  unfolding getAvailableSites_eq getDates_mar5_mar8
  by (simp add: partialCampground_def fullyAvailable_def siteA_def siteB_def
      Time_value_def mar5_def mar6_def mar7_def)

text \<open>
  The keys of \<open>offsetCampground\<close> denote the three nights in another Location: they are
  not the keys \<open>getAvailableSites\<close> looks up, and the site is not found.
\<close>

lemma getAvailableSites_offset: "getAvailableSites offsetCampground mar5 mar8 = []"
  unfolding getAvailableSites_eq getDates_mar5_mar8
  by (simp add: offsetCampground_def fullyAvailable_def siteA_offset_def
      Time_value_def mar5_def mar6_def mar7_def)

lemma zeroTime_in_getDates: "zeroTime \<in> set (getDates zeroTime mar8)"
proof -
  have "Duration_days (Time_Sub mar8 zeroTime) = 106751"
    by (intro Duration_days_saturated) (simp add: mar8_def zeroTime_def Second_def maxDuration_def)
  then have "getDates zeroTime mar8 = map (\<lambda>i. Time (sec zeroTime + i * 86400)) [0..106750]"
    by (simp add: getDates_eq)
  moreover have "(0::int) \<in> set [0..106750]"
    by simp
  ultimately show ?thesis
    by (force simp: zeroTime_def)
qed

lemma getAvailableSites_zeroTime: "getAvailableSites exampleCampground zeroTime mar8 = []"
proof -
  have "Availabilities siteA (Time_value zeroTime) = None"
    and "Availabilities siteB (Time_value zeroTime) = None"
    by (simp_all add: siteA_def siteB_def Time_value_def zeroTime_def mar5_def mar6_def
        mar7_def)
  moreover have "Time_value zeroTime \<in> set (map Time_value (getDates zeroTime mar8))"
    using zeroTime_in_getDates by simp
  ultimately have "\<not> fullyAvailable siteA (map Time_value (getDates zeroTime mar8))"
    and "\<not> fullyAvailable siteB (map Time_value (getDates zeroTime mar8))"
    unfolding fullyAvailable_def by force+
  then show ?thesis
    by (simp add: getAvailableSites_eq exampleCampground_def)
qed



text \<open>
  Claim C2. With an empty sequence of dates the result is empty, whatever the sites and
  their status: the inner loop body, the only place that appends an identifier, never
  runs.
\<close>

theorem getAvailableSites_no_dates:
  "snd (sites_loop (Campsites campground) [] (0, [])) = []
   \<and> (getDates arrival departure = [] \<longrightarrow>
        getAvailableSites campground arrival departure = [])"
  by (simp add: getAvailableSites_def snd_sites_loop fullyAvailable_def)

theorem getAvailableSites_no_dates_witness:
  "getDates mar8 mar5 = [] \<and> getAvailableSites exampleCampground mar8 mar5 = []"
  using getAvailableSites_no_dates [of exampleCampground mar8 mar5]
    getDates_eq [of mar8 mar5]
  by (simp add: Time_Sub_def Duration_days_def Hour_def Second_def minDuration_def
      maxDuration_def mar5_def mar8_def)

section \<open>Properties of the dispatcher\<close>

lemma ScrapeAvailability_eq:
  "ScrapeAvailability w campgroundID arrival departure =
     (case http_Get w (availabilityURL w campgroundID arrival) of
        None \<Rightarrow> Panic
      | Some data \<Rightarrow>
          Return (getAvailableSites (snd (json_Unmarshal_Campground w data)) arrival departure),
      [HttpGet (availabilityURL w campgroundID arrival)])"
  by (simp add: ScrapeAvailability_def availabilityURL_def Let_def split: option.splits)

lemma ScrapeFromMessage_no_Name:
  assumes "json_Unmarshal_MessageContent w data = (err, messageContent)"
    and "Name messageContent = []"
  shows "ScrapeFromMessage w data =
     (Return (Some (Error ''this is an error'')), if err \<noteq> None then [LogPrintln] else [])"
  using assms by (simp add: ScrapeFromMessage_def)

lemma ScrapeFromMessage_Panic:
  assumes "json_Unmarshal_MessageContent w data = (err, messageContent)"
    and "Name messageContent \<noteq> []"
    and "ScrapeAvailability w (Campground messageContent)
           (parsed (time_Parse w layoutISO (Arrival messageContent)))
           (parsed (time_Parse w layoutISO (Departure messageContent))) = (Panic, fetched)"
  shows "ScrapeFromMessage w data = (Panic, (if err \<noteq> None then [LogPrintln] else []) @ fetched)"
  using assms by (simp add: ScrapeFromMessage_def Let_def)

lemma ScrapeFromMessage_Return:
  assumes "json_Unmarshal_MessageContent w data = (err, messageContent)"
    and "Name messageContent \<noteq> []"
    and "ScrapeAvailability w (Campground messageContent)
           (parsed (time_Parse w layoutISO (Arrival messageContent)))
           (parsed (time_Parse w layoutISO (Departure messageContent)))
         = (Return available, fetched)"
  shows "ScrapeFromMessage w data =
     (Return None,
      (if err \<noteq> None then [LogPrintln] else []) @ fetched
      @ (if available \<noteq> []
         then [SendEmail (Campground messageContent) available
                 (time_Format w (parsed (time_Parse w layoutISO (Arrival messageContent)))
                    ''Mon Jan 2'')
                 (time_Format w (parsed (time_Parse w layoutISO (Departure messageContent)))
                    ''Mon Jan 2''),
               DeleteJob (Name messageContent)]
         else []))"
  using assms by (simp add: ScrapeFromMessage_def Let_def)

lemma ScrapeFromMessage_named:
  assumes "json_Unmarshal_MessageContent w data = (err, messageContent)"
    and "Name messageContent \<noteq> []"
    and "arrival = parsed (time_Parse w layoutISO (Arrival messageContent))"
    and "departure = parsed (time_Parse w layoutISO (Departure messageContent))"
  shows "ScrapeFromMessage w data =
     (case http_Get w (availabilityURL w (Campground messageContent) arrival) of
        None \<Rightarrow>
          (Panic,
           (if err \<noteq> None then [LogPrintln] else [])
           @ [HttpGet (availabilityURL w (Campground messageContent) arrival)])
      | Some body \<Rightarrow>
          (Return None,
           (if err \<noteq> None then [LogPrintln] else [])
           @ [HttpGet (availabilityURL w (Campground messageContent) arrival)]
           @ (if getAvailableSites (snd (json_Unmarshal_Campground w body)) arrival departure
                 \<noteq> []
              then [SendEmail (Campground messageContent)
                      (getAvailableSites (snd (json_Unmarshal_Campground w body))
                         arrival departure)
                      (time_Format w arrival ''Mon Jan 2'')
                      (time_Format w departure ''Mon Jan 2''),
                    DeleteJob (Name messageContent)]
              else [])))"
proof (cases "http_Get w (availabilityURL w (Campground messageContent) arrival)")
  case None
  then have "ScrapeAvailability w (Campground messageContent) arrival departure =
      (Panic, [HttpGet (availabilityURL w (Campground messageContent) arrival)])"
    by (simp add: ScrapeAvailability_eq)
  then show ?thesis
    using ScrapeFromMessage_Panic [OF assms(1,2)] None by (simp add: assms(3,4))
next
  case (Some body)
  then have "ScrapeAvailability w (Campground messageContent) arrival departure =
      (Return (getAvailableSites (snd (json_Unmarshal_Campground w body)) arrival departure),
       [HttpGet (availabilityURL w (Campground messageContent) arrival)])"
    by (simp add: ScrapeAvailability_eq)
  then show ?thesis
    using ScrapeFromMessage_Return [OF assms(1,2)] Some by (simp add: assms(3,4))
qed

lemma parsed_simps [simp]: "parsed (Inl err) = zeroTime" "parsed (Inr t) = t"
  by (simp_all add: parsed_def)

lemma jobsDeleted_append [simp]: "jobsDeleted (xs @ ys) = jobsDeleted xs @ jobsDeleted ys"
  by (induction xs rule: jobsDeleted.induct) simp_all

text \<open>
  The sample runs.
\<close>

lemma payloads_distinct:
  "payloadBadArrival \<noteq> payloadOK" "payloadTypeError \<noteq> payloadOK"
  "payloadTypeError \<noteq> payloadBadArrival" "payloadNoName \<noteq> payloadOK"
  "payloadNoName \<noteq> payloadBadArrival" "payloadNoName \<noteq> payloadTypeError"
  by (simp_all add: payloadOK_def payloadBadArrival_def payloadTypeError_def payloadNoName_def)

lemma bodies_distinct: "bodyTypeError \<noteq> bodyOK"
  by (simp add: bodyOK_def bodyTypeError_def)

lemma dates_distinct:
  "mar5 \<noteq> zeroTime" "mar8 \<noteq> zeroTime" "mar1 \<noteq> zeroTime"
  "zeroTime \<noteq> mar5" "zeroTime \<noteq> mar8" "zeroTime \<noteq> mar1"
  "mar5 \<noteq> mar8" "mar5 \<noteq> mar1" "mar8 \<noteq> mar1"
  "mar8 \<noteq> mar5" "mar1 \<noteq> mar5" "mar1 \<noteq> mar8"
  by (simp_all add: mar5_def mar8_def mar1_def zeroTime_def)

lemmas sample_simps =
  sampleWorld_def offlineWorld_def typeErrorWorld_def payloads_distinct bodies_distinct
  dates_distinct layoutISO_def ScrapeAvailability_eq availabilityURL_def
  getAvailableSites_example getAvailableSites_partial getAvailableSites_zeroTime

lemma run_payloadOK:
  "ScrapeFromMessage sampleWorld payloadOK =
     (Return None,
      [HttpGet (''https://www.recreation.gov/api/camps/availability/campground/232447''
                @ ''/month?start_date=2024-03-01T00:00:00Z''),
       SendEmail ''232447'' [''A''] ''Tue Mar 5'' ''Fri Mar 8'',
       DeleteJob ''job1''])"
  by (simp add: ScrapeFromMessage_def sample_simps)

lemma run_payloadBadArrival:
  "ScrapeFromMessage sampleWorld payloadBadArrival =
     (Return None,
      [HttpGet (''https://www.recreation.gov/api/camps/availability/campground/232447''
                @ ''/month?start_date=0001-01-01T00:00:00Z'')])"
  by (simp add: ScrapeFromMessage_def sample_simps)

lemma run_payloadTypeError:
  "ScrapeFromMessage sampleWorld payloadTypeError =
     (Return None,
      [LogPrintln,
       HttpGet (''https://www.recreation.gov/api/camps/availability/campground/''
                @ ''/month?start_date=2024-03-01T00:00:00Z''),
       SendEmail [] [''A''] ''Tue Mar 5'' ''Fri Mar 8'',
       DeleteJob ''job1''])"
  by (simp add: ScrapeFromMessage_def sample_simps)

lemma run_offline:
  "ScrapeFromMessage offlineWorld payloadOK =
     (Panic,
      [HttpGet (''https://www.recreation.gov/api/camps/availability/campground/232447''
                @ ''/month?start_date=2024-03-01T00:00:00Z'')])"
  by (simp add: ScrapeFromMessage_def sample_simps)

lemma run_typeErrorWorld:
  "ScrapeFromMessage typeErrorWorld payloadOK =
     (Return None,
      [HttpGet (''https://www.recreation.gov/api/camps/availability/campground/232447''
                @ ''/month?start_date=2024-03-01T00:00:00Z''),
       SendEmail ''232447'' [''A''] ''Tue Mar 5'' ''Fri Mar 8'',
       DeleteJob ''job1''])"
  by (simp add: ScrapeFromMessage_def sample_simps)

text \<open>
  Claim C7, as stated: when the requester name is empty or the decoding fails,
  \<open>ScrapeFromMessage\<close> returns an error and nothing downstream runs. It fails for a
  decoding failure that leaves a name: in \<open>payloadTypeError\<close> the campground is a JSON
  number, \<^verbatim>\<open>json.Unmarshal\<close> reports the type error and still fills in
  \<open>Name\<close>; the error is logged, and the run fetches, notifies and cancels.
\<close>

theorem ScrapeFromMessage_decode_failure_counterexample:
  "fst (json_Unmarshal_MessageContent sampleWorld payloadTypeError) \<noteq> None
   \<and> ScrapeFromMessage sampleWorld payloadTypeError =
       (Return None,
        [LogPrintln,
         HttpGet (''https://www.recreation.gov/api/camps/availability/campground/''
                  @ ''/month?start_date=2024-03-01T00:00:00Z''),
         SendEmail [] [''A''] ''Tue Mar 5'' ''Fri Mar 8'',
         DeleteJob ''job1''])"
  by (simp add: run_payloadTypeError) (simp add: sample_simps)

text \<open>
  Claim C7, amended: when the \<open>Name\<close> field is empty after decoding, whether the
  decoding failed or not, \<open>ScrapeFromMessage\<close> returns the error
  \<^verbatim>\<open>errors.New("this is an error")\<close> and nothing downstream runs: the only
  effect is the log line of a decoding error, so there is no fetch, no notification and
  no cancellation. A decoding failure that leaves \<open>Name\<close> non-empty is only logged and
  the run proceeds: no error value is returned, the log line is followed by the
  availability request, and when the request yields a response the run goes on as for a
  payload decoded without error, with the match, the notification and cancellation of a
  non-empty match, and the result nil.
\<close>

theorem ScrapeFromMessage_empty_Name:
  assumes "json_Unmarshal_MessageContent w data = (err, messageContent)"
    and "arrival = parsed (time_Parse w layoutISO (Arrival messageContent))"
    and "departure = parsed (time_Parse w layoutISO (Departure messageContent))"
    and "available = getAvailableSites (snd (json_Unmarshal_Campground w body)) arrival departure"
  shows "(Name messageContent = [] \<longrightarrow>
            fst (ScrapeFromMessage w data) = Return (Some (Error ''this is an error''))
          \<and> snd (ScrapeFromMessage w data) = (if err \<noteq> None then [LogPrintln] else []))
    \<and> (Name messageContent \<noteq> [] \<and> err \<noteq> None \<longrightarrow>
            fst (ScrapeFromMessage w data) \<noteq> Return (Some e)
          \<and> take 2 (snd (ScrapeFromMessage w data))
              = [LogPrintln, HttpGet (availabilityURL w (Campground messageContent) arrival)]
          \<and> (http_Get w (availabilityURL w (Campground messageContent) arrival) = Some body
               \<longrightarrow> ScrapeFromMessage w data =
                 (Return None,
                  [LogPrintln, HttpGet (availabilityURL w (Campground messageContent) arrival)]
                  @ (if available \<noteq> []
                     then [SendEmail (Campground messageContent) available
                             (time_Format w arrival ''Mon Jan 2'')
                             (time_Format w departure ''Mon Jan 2''),
                           DeleteJob (Name messageContent)]
                     else []))))"
proof (cases "Name messageContent = []")
  case True
  then show ?thesis
    using ScrapeFromMessage_no_Name [OF assms(1)] by simp
next
  case False
  show ?thesis
    using False assms(4) ScrapeFromMessage_named [OF assms(1) False assms(2,3)]
    by (auto split: option.splits)
qed

theorem ScrapeFromMessage_empty_Name_witness:
  "json_Unmarshal_MessageContent sampleWorld payloadNoName =
     (None, \<lparr>Name = [], Campground = ''232447'', Arrival = ''2024-3-5'',
             Departure = ''2024-3-8''\<rparr>)
   \<and> ScrapeFromMessage sampleWorld payloadNoName = (Return (Some (Error ''this is an error'')), [])
   \<and> json_Unmarshal_MessageContent sampleWorld payloadTypeError =
     (Some (Error ''json: cannot unmarshal number into Go struct field''),
      \<lparr>Name = ''job1'', Campground = [], Arrival = ''2024-3-5'', Departure = ''2024-3-8''\<rparr>)
   \<and> http_Get sampleWorld (availabilityURL sampleWorld [] mar5) = Some bodyOK
   \<and> ScrapeFromMessage sampleWorld payloadTypeError =
       (Return None,
        [LogPrintln, HttpGet (availabilityURL sampleWorld [] mar5),
         SendEmail [] [''A''] ''Tue Mar 5'' ''Fri Mar 8'', DeleteJob ''job1''])"
proof -
  have decode1: "json_Unmarshal_MessageContent sampleWorld payloadNoName =
     (None, \<lparr>Name = [], Campground = ''232447'', Arrival = ''2024-3-5'',
             Departure = ''2024-3-8''\<rparr>)"
    by (simp add: sample_simps)
  have decode2: "json_Unmarshal_MessageContent sampleWorld payloadTypeError =
     (Some (Error ''json: cannot unmarshal number into Go struct field''),
      \<lparr>Name = ''job1'', Campground = [], Arrival = ''2024-3-5'', Departure = ''2024-3-8''\<rparr>)"
    by (simp add: sample_simps)
  have dates: "parsed (time_Parse sampleWorld layoutISO ''2024-3-5'') = mar5"
    "parsed (time_Parse sampleWorld layoutISO ''2024-3-8'') = mar8"
    by (simp_all add: sampleWorld_def)
  have get: "http_Get sampleWorld (availabilityURL sampleWorld [] mar5) = Some bodyOK"
    by (simp add: sampleWorld_def)
  have match: "getAvailableSites (snd (json_Unmarshal_Campground sampleWorld bodyOK)) mar5 mar8
      = [''A'']"
    by (simp add: sampleWorld_def getAvailableSites_example)
  have formats: "time_Format sampleWorld mar5 ''Mon Jan 2'' = ''Tue Mar 5''"
    "time_Format sampleWorld mar8 ''Mon Jan 2'' = ''Fri Mar 8''"
    by (simp_all add: sampleWorld_def dates_distinct)
  have empty: "ScrapeFromMessage sampleWorld payloadNoName =
      (Return (Some (Error ''this is an error'')), [])"
    using ScrapeFromMessage_empty_Name [OF decode1 refl refl refl]
    by (simp add: prod_eq_iff)
  have logged: "ScrapeFromMessage sampleWorld payloadTypeError =
       (Return None,
        [LogPrintln, HttpGet (availabilityURL sampleWorld [] mar5),
         SendEmail [] [''A''] ''Tue Mar 5'' ''Fri Mar 8'', DeleteJob ''job1''])"
    using ScrapeFromMessage_empty_Name [OF decode2 refl refl refl, where body = bodyOK]
      dates get match formats
    by simp
  show ?thesis
    using decode1 decode2 get empty logged by simp
qed

text \<open>
  Claim C5, as stated: a date string that fails to parse makes the dispatcher abort with
  an error, and no fetch runs. It fails: with the arrival \<open>tomorrow\<close>,
  \<open>ScrapeFromMessage\<close> returns nil after requesting the availability of the month of
  the zero time, January of year 1.
\<close>

theorem ScrapeFromMessage_parse_failure_counterexample:
  "time_Parse sampleWorld layoutISO ''tomorrow'' = Inl (Error ''parsing time'')
   \<and> Arrival (snd (json_Unmarshal_MessageContent sampleWorld payloadBadArrival)) = ''tomorrow''
   \<and> ScrapeFromMessage sampleWorld payloadBadArrival =
       (Return None,
        [HttpGet (''https://www.recreation.gov/api/camps/availability/campground/232447''
                  @ ''/month?start_date=0001-01-01T00:00:00Z'')])"
  by (simp add: run_payloadBadArrival) (simp add: sample_simps)

text \<open>
  Claim C5, amended: for a payload with a non-empty \<open>Name\<close> whose arrival or
  departure string fails to parse, \<open>ScrapeFromMessage\<close> returns no error value; the
  zero time stands for each date that failed to parse, and the availability request is
  made, for the month of the arrival so obtained. When the request yields a response the
  run goes on with these dates as for any request: the match is \<open>getAvailableSites\<close> on
  them, a non-empty match is followed by the notification, which formats them, and by the
  cancellation, and the result is nil.
\<close>

theorem ScrapeFromMessage_parse_failure:
  assumes "json_Unmarshal_MessageContent w data = (err, messageContent)"
    and "Name messageContent \<noteq> []"
    and "time_Parse w layoutISO (Arrival messageContent) = Inl err1
         \<or> time_Parse w layoutISO (Departure messageContent) = Inl err2"
    and "arrival = (case time_Parse w layoutISO (Arrival messageContent) of
                      Inl parseError \<Rightarrow> zeroTime | Inr t \<Rightarrow> t)"
    and "departure = (case time_Parse w layoutISO (Departure messageContent) of
                        Inl parseError \<Rightarrow> zeroTime | Inr t \<Rightarrow> t)"
    and "available = getAvailableSites (snd (json_Unmarshal_Campground w body)) arrival departure"
  shows "fst (ScrapeFromMessage w data) \<noteq> Return (Some e)
    \<and> (arrival = zeroTime \<or> departure = zeroTime)
    \<and> take (Suc (length (if err \<noteq> None then [LogPrintln] else [])))
         (snd (ScrapeFromMessage w data))
        = (if err \<noteq> None then [LogPrintln] else [])
          @ [HttpGet (availabilityURL w (Campground messageContent) arrival)]
    \<and> (http_Get w (availabilityURL w (Campground messageContent) arrival) = Some body \<longrightarrow>
         ScrapeFromMessage w data =
           (Return None,
            (if err \<noteq> None then [LogPrintln] else [])
            @ [HttpGet (availabilityURL w (Campground messageContent) arrival)]
            @ (if available \<noteq> []
               then [SendEmail (Campground messageContent) available
                       (time_Format w arrival ''Mon Jan 2'')
                       (time_Format w departure ''Mon Jan 2''),
                     DeleteJob (Name messageContent)]
               else [])))"
proof -
  have a: "arrival = parsed (time_Parse w layoutISO (Arrival messageContent))"
    and d: "departure = parsed (time_Parse w layoutISO (Departure messageContent))"
    by (simp_all add: assms(4,5) parsed_def)
  have z: "arrival = zeroTime \<or> departure = zeroTime"
    using assms(3) by (auto simp: assms(4,5))
  show ?thesis
    using z assms(6) ScrapeFromMessage_named [OF assms(1,2) a d]
    by (auto split: option.splits)
qed

theorem ScrapeFromMessage_parse_failure_witness:
  "json_Unmarshal_MessageContent sampleWorld payloadBadArrival =
     (None, \<lparr>Name = ''job1'', Campground = ''232447'', Arrival = ''tomorrow'',
             Departure = ''2024-3-8''\<rparr>)
   \<and> time_Parse sampleWorld layoutISO ''tomorrow'' = Inl (Error ''parsing time'')
   \<and> time_Parse sampleWorld layoutISO ''2024-3-8'' = Inr mar8
   \<and> http_Get sampleWorld (availabilityURL sampleWorld ''232447'' zeroTime) = Some bodyOK
   \<and> getAvailableSites (snd (json_Unmarshal_Campground sampleWorld bodyOK)) zeroTime mar8 = []
   \<and> ScrapeFromMessage sampleWorld payloadBadArrival =
       (Return None, [HttpGet (availabilityURL sampleWorld ''232447'' zeroTime)])"
proof -
  have decode: "json_Unmarshal_MessageContent sampleWorld payloadBadArrival =
     (None, \<lparr>Name = ''job1'', Campground = ''232447'', Arrival = ''tomorrow'',
             Departure = ''2024-3-8''\<rparr>)"
    by (simp add: sample_simps)
  have fails: "time_Parse sampleWorld layoutISO ''tomorrow'' = Inl (Error ''parsing time'')"
    and parses: "time_Parse sampleWorld layoutISO ''2024-3-8'' = Inr mar8"
    by (simp_all add: sample_simps)
  have get: "http_Get sampleWorld (availabilityURL sampleWorld ''232447'' zeroTime) = Some bodyOK"
    by (simp add: sampleWorld_def)
  have match: "getAvailableSites (snd (json_Unmarshal_Campground sampleWorld bodyOK))
      zeroTime mar8 = []"
    by (simp add: sampleWorld_def getAvailableSites_zeroTime)
  show ?thesis
    using decode fails parses get match
      ScrapeFromMessage_parse_failure [OF decode _ _ refl refl refl,
        where ?err1.0 = "Error ''parsing time''" and ?err2.0 = "Error ''parsing time''"
        and e = "Error ''parsing time''" and body = bodyOK]
    by simp
qed

text \<open>
  Claim C6, as stated: when the fetch fails in transport or in decoding, the failure is
  propagated as an error and no matching is attempted. It fails for a decoding failure:
  \<open>bodyTypeError\<close> carries \<^verbatim>\<open>campsite_id\<close> as a string, the decoder reports
  the type error and leaves the sites filled in; \<open>ScrapeAvailability\<close> returns the match
  on that data, and the notification and the cancellation follow.
\<close>

theorem ScrapeAvailability_decode_failure_counterexample:
  "http_Get typeErrorWorld (availabilityURL typeErrorWorld ''232447'' mar5) = Some bodyTypeError
   \<and> fst (json_Unmarshal_Campground typeErrorWorld bodyTypeError) \<noteq> None
   \<and> fst (ScrapeAvailability typeErrorWorld ''232447'' mar5 mar8) = Return [''A'']
   \<and> ScrapeFromMessage typeErrorWorld payloadOK =
       (Return None,
        [HttpGet (''https://www.recreation.gov/api/camps/availability/campground/232447''
                  @ ''/month?start_date=2024-03-01T00:00:00Z''),
         SendEmail ''232447'' [''A''] ''Tue Mar 5'' ''Fri Mar 8'',
         DeleteJob ''job1''])"
  by (simp add: run_typeErrorWorld) (simp add: sample_simps)

text \<open>
  Claim C6, amended: when the request yields a response whose decoding fails,
  \<open>ScrapeAvailability\<close> surfaces no error and returns the match of
  \<open>getAvailableSites\<close> on the value the decoder left; on a zero-valued one, which has no
  sites, that match is empty.
\<close>

theorem ScrapeAvailability_decode_failure:
  assumes "http_Get w (availabilityURL w campgroundID arrival) = Some data"
    and "json_Unmarshal_Campground w data = (Some err, campground)"
  shows "fst (ScrapeAvailability w campgroundID arrival departure)
           = Return (getAvailableSites campground arrival departure)
    \<and> getAvailableSites \<lparr>Campsites = []\<rparr> arrival departure = []"
  using assms by (simp add: ScrapeAvailability_eq getAvailableSites_eq)

theorem ScrapeAvailability_decode_failure_witness:
  "http_Get typeErrorWorld (availabilityURL typeErrorWorld ''232447'' mar5) = Some bodyTypeError
   \<and> json_Unmarshal_Campground typeErrorWorld bodyTypeError =
       (Some (Error ''json: cannot unmarshal string into Go struct field''), partialCampground)
   \<and> fst (ScrapeAvailability typeErrorWorld ''232447'' mar5 mar8) = Return [''A'']"
proof -
  have get: "http_Get typeErrorWorld (availabilityURL typeErrorWorld ''232447'' mar5)
      = Some bodyTypeError"
    by (simp add: typeErrorWorld_def)
  have decode: "json_Unmarshal_Campground typeErrorWorld bodyTypeError =
       (Some (Error ''json: cannot unmarshal string into Go struct field''), partialCampground)"
    by (simp add: typeErrorWorld_def sampleWorld_def bodies_distinct)
  show ?thesis
    using get decode ScrapeAvailability_decode_failure [OF get decode, of mar8]
    by (simp add: getAvailableSites_partial)
qed

text \<open>
  Claim C8. For a request that decodes and whose dates parse, once the fetch has returned
  the match: when the match is not empty, \<^verbatim>\<open>sendEmail\<close> is called once and then
  \<^verbatim>\<open>deleteJob\<close> is called once, in this order and after the request; when it is
  empty, neither is called. The run is given in full, so nothing else happens.
\<close>

theorem ScrapeFromMessage_notify_then_cancel:
  assumes "json_Unmarshal_MessageContent w data = (None, messageContent)"
    and "Name messageContent \<noteq> []"
    and "time_Parse w layoutISO (Arrival messageContent) = Inr arrival"
    and "time_Parse w layoutISO (Departure messageContent) = Inr departure"
    and "ScrapeAvailability w (Campground messageContent) arrival departure
           = (Return available, fetched)"
  shows "fetched = [HttpGet (availabilityURL w (Campground messageContent) arrival)]
    \<and> ScrapeFromMessage w data =
        (Return None,
         fetched
         @ (if available \<noteq> []
            then [SendEmail (Campground messageContent) available
                    (time_Format w arrival ''Mon Jan 2'')
                    (time_Format w departure ''Mon Jan 2''),
                  DeleteJob (Name messageContent)]
            else []))"
proof -
  have "fetched = [HttpGet (availabilityURL w (Campground messageContent) arrival)]"
    using assms(5) by (simp add: ScrapeAvailability_eq)
  moreover have "ScrapeFromMessage w data =
        (Return None,
         fetched
         @ (if available \<noteq> []
            then [SendEmail (Campground messageContent) available
                    (time_Format w arrival ''Mon Jan 2'')
                    (time_Format w departure ''Mon Jan 2''),
                  DeleteJob (Name messageContent)]
            else []))"
    using ScrapeFromMessage_Return [OF assms(1,2), of available fetched] assms(3,4,5)
    by simp
  ultimately show ?thesis by simp
qed

theorem ScrapeFromMessage_notify_then_cancel_witness:
  "json_Unmarshal_MessageContent sampleWorld payloadOK =
     (None, \<lparr>Name = ''job1'', Campground = ''232447'', Arrival = ''2024-3-5'',
             Departure = ''2024-3-8''\<rparr>)
   \<and> time_Parse sampleWorld layoutISO ''2024-3-5'' = Inr mar5
   \<and> time_Parse sampleWorld layoutISO ''2024-3-8'' = Inr mar8
   \<and> ScrapeAvailability sampleWorld ''232447'' mar5 mar8 =
       (Return [''A''], [HttpGet (availabilityURL sampleWorld ''232447'' mar5)])
   \<and> ScrapeFromMessage sampleWorld payloadOK =
       (Return None,
        [HttpGet (availabilityURL sampleWorld ''232447'' mar5),
         SendEmail ''232447'' [''A''] ''Tue Mar 5'' ''Fri Mar 8'',
         DeleteJob ''job1''])"
proof -
  have decode: "json_Unmarshal_MessageContent sampleWorld payloadOK =
     (None, \<lparr>Name = ''job1'', Campground = ''232447'', Arrival = ''2024-3-5'',
             Departure = ''2024-3-8''\<rparr>)"
    by (simp add: sampleWorld_def)
  have arrival: "time_Parse sampleWorld layoutISO ''2024-3-5'' = Inr mar5"
    and departure: "time_Parse sampleWorld layoutISO ''2024-3-8'' = Inr mar8"
    by (simp_all add: sampleWorld_def)
  have fetch: "ScrapeAvailability sampleWorld ''232447'' mar5 mar8 =
       (Return [''A''], [HttpGet (availabilityURL sampleWorld ''232447'' mar5)])"
    by (simp add: sample_simps)
  have formats: "time_Format sampleWorld mar5 ''Mon Jan 2'' = ''Tue Mar 5''"
    "time_Format sampleWorld mar8 ''Mon Jan 2'' = ''Fri Mar 8''"
    by (simp_all add: sampleWorld_def dates_distinct)
  show ?thesis
    using decode arrival departure fetch formats
      ScrapeFromMessage_notify_then_cancel [of sampleWorld payloadOK _ mar5 mar8 "[''A'']"
        "[HttpGet (availabilityURL sampleWorld ''232447'' mar5)]"]
    by simp
qed

text \<open>
  What claim C9 describes when the request yields a response: with a non-empty \<open>Name\<close>
  the result is nil, and the match runs on the dates as \<open>parsed\<close> gives them, the zero
  time for one that fails to parse.
\<close>

lemma ScrapeFromMessage_returns_nil:
  assumes "json_Unmarshal_MessageContent w data = (err, messageContent)"
    and "Name messageContent \<noteq> []"
    and "http_Get w (availabilityURL w (Campground messageContent)
            (parsed (time_Parse w layoutISO (Arrival messageContent)))) = Some body"
  shows "fst (ScrapeFromMessage w data) = Return None
    \<and> parsed (Inl parseError) = zeroTime
    \<and> fst (ScrapeAvailability w (Campground messageContent)
              (parsed (time_Parse w layoutISO (Arrival messageContent)))
              (parsed (time_Parse w layoutISO (Departure messageContent))))
        = Return (getAvailableSites (snd (json_Unmarshal_Campground w body))
                    (parsed (time_Parse w layoutISO (Arrival messageContent)))
                    (parsed (time_Parse w layoutISO (Departure messageContent))))"
proof -
  let ?arrival = "parsed (time_Parse w layoutISO (Arrival messageContent))"
  let ?departure = "parsed (time_Parse w layoutISO (Departure messageContent))"
  have fetch: "ScrapeAvailability w (Campground messageContent) ?arrival ?departure =
      (Return (getAvailableSites (snd (json_Unmarshal_Campground w body)) ?arrival ?departure),
       [HttpGet (availabilityURL w (Campground messageContent) ?arrival)])"
    using assms(3) by (simp add: ScrapeAvailability_eq)
  show ?thesis
    using ScrapeFromMessage_Return [OF assms(1,2) fetch] fetch by simp
qed

text \<open>
  Claim C9 says that \<open>ScrapeFromMessage\<close> returns nil for every payload that decodes
  with a non-empty \<open>Name\<close>. When \<^verbatim>\<open>http.Get\<close> fails, its error is dropped and
  the nil response is dereferenced: the run of \<open>payloadOK\<close> in \<open>offlineWorld\<close> panics
  and returns nothing.
\<close>

theorem ScrapeFromMessage_no_response_panics:
  "json_Unmarshal_MessageContent offlineWorld payloadOK =
     (None, \<lparr>Name = ''job1'', Campground = ''232447'', Arrival = ''2024-3-5'',
             Departure = ''2024-3-8''\<rparr>)
   \<and> fst (ScrapeFromMessage offlineWorld payloadOK) = Panic
   \<and> fst (ScrapeFromMessage offlineWorld payloadOK) \<noteq> Return None"
  by (simp add: run_offline) (simp add: offlineWorld_def sampleWorld_def)

text \<open>
  Claim C10. When a match is found, \<^verbatim>\<open>deleteJob\<close> is called exactly once in the
  run, and its argument is the \<open>Name\<close> field of the decoded payload: the requester name
  and the job identifier are the same field.
\<close>

theorem ScrapeFromMessage_deletes_job_Name:
  assumes "json_Unmarshal_MessageContent w data = (err, messageContent)"
    and "Name messageContent \<noteq> []"
    and "fst (ScrapeAvailability w (Campground messageContent)
           (parsed (time_Parse w layoutISO (Arrival messageContent)))
           (parsed (time_Parse w layoutISO (Departure messageContent)))) = Return available"
    and "available \<noteq> []"
  shows "jobsDeleted (snd (ScrapeFromMessage w data)) = [Name messageContent]"
proof -
  let ?arrival = "parsed (time_Parse w layoutISO (Arrival messageContent))"
  let ?departure = "parsed (time_Parse w layoutISO (Departure messageContent))"
  have fetch: "ScrapeAvailability w (Campground messageContent) ?arrival ?departure =
      (Return available, [HttpGet (availabilityURL w (Campground messageContent) ?arrival)])"
    using assms(3) by (simp add: ScrapeAvailability_eq split: option.splits)
  show ?thesis
    using ScrapeFromMessage_Return [OF assms(1,2) fetch] assms(4) by simp
qed

theorem ScrapeFromMessage_deletes_job_Name_witness:
  "json_Unmarshal_MessageContent sampleWorld payloadOK =
     (None, \<lparr>Name = ''job1'', Campground = ''232447'', Arrival = ''2024-3-5'',
             Departure = ''2024-3-8''\<rparr>)
   \<and> fst (ScrapeAvailability sampleWorld ''232447'' mar5 mar8) = Return [''A'']
   \<and> jobsDeleted (snd (ScrapeFromMessage sampleWorld payloadOK)) = [''job1'']"
proof -
  have decode: "json_Unmarshal_MessageContent sampleWorld payloadOK =
     (None, \<lparr>Name = ''job1'', Campground = ''232447'', Arrival = ''2024-3-5'',
             Departure = ''2024-3-8''\<rparr>)"
    by (simp add: sampleWorld_def)
  have dates: "parsed (time_Parse sampleWorld layoutISO ''2024-3-5'') = mar5"
    "parsed (time_Parse sampleWorld layoutISO ''2024-3-8'') = mar8"
    by (simp_all add: sampleWorld_def)
  have fetch: "fst (ScrapeAvailability sampleWorld ''232447'' mar5 mar8) = Return [''A'']"
    by (simp add: sample_simps)
  show ?thesis
    using decode fetch dates
      ScrapeFromMessage_deletes_job_Name [OF decode, of "[''A'']"]
    by simp
qed

end
